theory Spec2Isabelle
  imports Complex_Main "HOL-Library.AList" "HOL-Library.Log_Nat"
begin

section \<open>Numbers\<close>

text \<open>
  The program is a single Streamlit script, \<^verbatim>\<open>main.py\<close>. The balance and the amounts
  it handles are Python floats: the values of \<^verbatim>\<open>st.number_input\<close> widgets declared
  with float bounds. The script adds them, subtracts them and compares them, and every
  addition and subtraction rounds its result to the nearest binary64 number.

  The definitions below are therefore written for any type of numbers \<open>'a\<close> that has a
  zero, an addition, a subtraction and a linear order, and they assume no law of
  arithmetic: what is proved for every such type holds for the script's floats. Two
  types of numbers are used to run the definitions: \<open>float64\<close>, the floats of the
  script, and \<open>rat\<close>, the exact decimals of the specification.
\<close>

text \<open>
  For a positive rational \<open>x\<close>, the integer \<open>k\<close> with \<open>2 ^ k \<le> x < 2 ^ (k + 1)\<close>, from
  the bit lengths of its numerator and denominator.
\<close>

definition exponent_of :: "rat \<Rightarrow> int" where
  "exponent_of x =
     (case quotient_of x of (p, q) \<Rightarrow>
        let k = bitlen p - bitlen q in if 2 powi k \<le> x then k else k - 1)"

text \<open>Rounding to the nearest integer, a tie going to the even one.\<close>

definition round_half_even :: "rat \<Rightarrow> int" where
  "round_half_even q =
     (let n = \<lfloor>q\<rfloor>; r = q - of_int n
      in if r < 1 / 2 then n
         else if 1 / 2 < r then n + 1
         else if even n then n else n + 1)"

text \<open>
  Rounding to binary64: the nearest number with a significand of 53 bits, a tie going
  to the even significand. The exponent is not bounded, so the overflow to \<^verbatim>\<open>inf\<close>
  above \<open>1.8e308\<close> and the loss of precision below \<open>2.2e-308\<close> are not modelled; no
  amount of money lies there.
\<close>

definition round_binary64 :: "rat \<Rightarrow> rat" where
  "round_binary64 x =
     (if x = 0 then 0
      else let e = exponent_of \<bar>x\<bar> - 52
           in sgn x * of_int (round_half_even (\<bar>x\<bar> / 2 powi e)) * 2 powi e)"

text \<open>
  A Python float, by its exact value. \<^verbatim>\<open>x + y\<close> and \<^verbatim>\<open>x - y\<close> round the exact
  result; comparisons are exact. The integer \<^verbatim>\<open>0\<close>, with which the script starts the
  balance and \<^verbatim>\<open>sum\<close> its accumulation, behaves as the float \<^verbatim>\<open>0.0\<close> in all of them.
\<close>

datatype float64 = Float64 (val: rat)

instantiation float64 :: "{zero, plus, minus, linorder}"
begin

definition zero_float64 :: float64 where
  "zero_float64 = Float64 0"

definition plus_float64 :: "float64 \<Rightarrow> float64 \<Rightarrow> float64" where
  "plus_float64 x y = Float64 (round_binary64 (val x + val y))"

definition minus_float64 :: "float64 \<Rightarrow> float64 \<Rightarrow> float64" where
  "minus_float64 x y = Float64 (round_binary64 (val x - val y))"

definition less_eq_float64 :: "float64 \<Rightarrow> float64 \<Rightarrow> bool" where
  "less_eq_float64 x y = (val x \<le> val y)"

definition less_float64 :: "float64 \<Rightarrow> float64 \<Rightarrow> bool" where
  "less_float64 x y = (val x < val y)"

instance
  by standard
    (auto simp add: less_eq_float64_def less_float64_def intro: float64.expand)

end

text \<open>A number written in the source or typed into a widget: the nearest float.\<close>

definition float :: "rat \<Rightarrow> float64" where
  "float x = Float64 (round_binary64 x)"

section \<open>The ledger held in the session state\<close>

text \<open>
  The ledger lives in \<^verbatim>\<open>st.session_state\<close> under the three keys \<^verbatim>\<open>transactions\<close>,
  \<^verbatim>\<open>initial_balance\<close> and \<^verbatim>\<open>is_initialized\<close>. A \<^verbatim>\<open>datetime\<close> and a \<^verbatim>\<open>date\<close> are
  opaque clock readings, modelled as natural numbers.
\<close>

record 'a transaction =
  amount :: 'a
  description :: string
  timestamp :: nat
  date :: nat

text \<open>The session state once all three keys are present.\<close>

record 'a session_state =
  transactions :: "'a transaction list"
  initial_balance :: 'a
  is_initialized :: bool

text \<open>
  The raw session dictionary, in which each of the three keys may still be missing
  (\<open>None\<close>), as it is when a browser session starts.
\<close>

record 'a session_store =
  transactions_key :: "'a transaction list option"
  initial_balance_key :: "'a option"
  is_initialized_key :: "bool option"

definition empty_store :: "'a session_store" where
  "empty_store =
     \<lparr>transactions_key = None, initial_balance_key = None, is_initialized_key = None\<rparr>"

definition store_of :: "'a session_state \<Rightarrow> 'a session_store" where
  "store_of s =
     \<lparr>transactions_key = Some (transactions s),
      initial_balance_key = Some (initial_balance s),
      is_initialized_key = Some (is_initialized s)\<rparr>"

text \<open>\<^verbatim>\<open>initialize_session_state\<close>: every missing key receives its default.\<close>

definition initialize_session_state ::
  "('a :: {zero, plus, minus, linorder}) session_store \<Rightarrow> 'a session_state" where
  "initialize_session_state st =
     \<lparr>transactions = (case transactions_key st of None \<Rightarrow> [] | Some ts \<Rightarrow> ts),
      initial_balance = (case initial_balance_key st of None \<Rightarrow> 0 | Some b \<Rightarrow> b),
      is_initialized = (case is_initialized_key st of None \<Rightarrow> False | Some i \<Rightarrow> i)\<rparr>"

section \<open>Balance\<close>

text \<open>
  Python's builtin \<^verbatim>\<open>sum\<close>: it starts at \<open>0\<close> and adds the items from left to right,
  each addition in the arithmetic of the numbers added. (From version 3.12 on, CPython
  also carries a correction term while it adds floats; the plain accumulation is the one
  modelled.)
\<close>

definition sum_builtin :: "('a :: {zero, plus, minus, linorder}) list \<Rightarrow> 'a" where
  "sum_builtin xs = foldl (+) 0 xs"

definition calculate_current_balance ::
  "('a :: {zero, plus, minus, linorder}) session_state \<Rightarrow> 'a" where
  "calculate_current_balance s =
     (if \<not> is_initialized s then 0
      else let total_expenses = sum_builtin (map amount (transactions s))
           in initial_balance s - total_expenses)"

text \<open>
  \<^verbatim>\<open>add_transaction\<close> reads the clock twice (\<^verbatim>\<open>datetime.now()\<close>, \<^verbatim>\<open>date.today()\<close>);
  the two readings are inputs of the model. It appends without checking anything.
\<close>

definition add_transaction ::
  "nat \<Rightarrow> nat \<Rightarrow> 'a \<Rightarrow> string \<Rightarrow> 'a session_state \<Rightarrow> 'a session_state" where
  "add_transaction now today a d s =
     s\<lparr>transactions :=
         transactions s @ [\<lparr>amount = a, description = d, timestamp = now, date = today\<rparr>]\<rparr>"

section \<open>Running balance series\<close>

text \<open>
  The data frame behind the balance chart: three columns of equal length. The chart
  plots column \<open>Transaction\<close> against column \<open>Balance\<close>; its styling is not modelled.
\<close>

record 'a data_frame =
  Date :: "nat list"
  Balance :: "'a list"
  Transaction :: "nat list"

text \<open>
  The \<^verbatim>\<open>for\<close> loop of \<^verbatim>\<open>create_balance_visualization\<close>, with its three variables
  \<^verbatim>\<open>running_balance\<close>, \<^verbatim>\<open>balance_history\<close> and \<^verbatim>\<open>dates\<close> as the accumulator.
\<close>

fun balance_loop ::
  "('a :: {zero, plus, minus, linorder}) transaction list \<Rightarrow> 'a \<times> 'a list \<times> nat list
     \<Rightarrow> 'a \<times> 'a list \<times> nat list" where
  "balance_loop [] acc = acc"
| "balance_loop (t # ts) (running_balance, balance_history, dates) =
     balance_loop ts
       (running_balance - amount t,
        balance_history @ [running_balance - amount t],
        dates @ [date t])"

definition create_balance_visualization ::
  "nat \<Rightarrow> ('a :: {zero, plus, minus, linorder}) session_state \<Rightarrow> 'a data_frame option" where
  "create_balance_visualization today s =
     (if transactions s = [] then None
      else
        let balance_history0 = [initial_balance s];
            dates0 = [case transactions s of t # _ \<Rightarrow> date t | [] \<Rightarrow> today];
            (running_balance, balance_history, dates) =
               balance_loop (transactions s) (initial_balance s, balance_history0, dates0)
        in Some \<lparr>Date = dates, Balance = balance_history,
                 Transaction = [0 ..< length balance_history]\<rparr>)"

section \<open>Expense breakdown\<close>

text \<open>
  The dictionary \<^verbatim>\<open>expense_data\<close> keeps its keys in insertion order, so it is an
  association list: \<^const>\<open>AList.update\<close> overwrites the value of a key that is present,
  in place, and appends a key that is new.
\<close>

fun expense_loop ::
  "('a :: {zero, plus, minus, linorder}) transaction list \<Rightarrow> (string \<times> 'a) list
     \<Rightarrow> (string \<times> 'a) list" where
  "expense_loop [] expense_data = expense_data"
| "expense_loop (t # ts) expense_data =
     (let desc = description t in
      expense_loop ts
        (case map_of expense_data desc of
           Some v \<Rightarrow> AList.update desc (v + amount t) expense_data
         | None \<Rightarrow> AList.update desc (amount t) expense_data))"

text \<open>The data of the pie chart: the dictionary's values and its keys, in order.\<close>

record 'a pie =
  pie_values :: "'a list"
  pie_names :: "string list"

definition create_expense_breakdown ::
  "('a :: {zero, plus, minus, linorder}) session_state \<Rightarrow> 'a pie option" where
  "create_expense_breakdown s =
     (if transactions s = [] then None
      else
        let expense_data = expense_loop (transactions s) []
        in if length expense_data > 1
           then Some \<lparr>pie_values = map snd expense_data, pie_names = map fst expense_data\<rparr>
           else None)"

section \<open>One run of the script\<close>

text \<open>
  Streamlit runs \<^verbatim>\<open>main\<close> from the top after every interaction. A button returns
  \<^verbatim>\<open>True\<close> only in the run its click started, so a run sees at most one click,
  together with the values of the input widgets next to that button.
\<close>

datatype 'a event =
    No_Click
  | Reset_All_Data
  | Set_Initial_Balance 'a
  | Add_Expense 'a string

text \<open>The notices the script shows (\<^verbatim>\<open>st.success\<close>, \<^verbatim>\<open>st.warning\<close>, \<^verbatim>\<open>st.error\<close>).\<close>

datatype 'a message =
    Data_reset_successfully
  | Initial_balance_set_successfully 'a
  | Please_enter_a_positive_amount
  | Exceeded_initial_balance
  | Spent_all_your_money
  | Expense_added_successfully 'a
  | Please_enter_a_valid_expense_amount

text \<open>
  \<^verbatim>\<open>main\<close>, restricted to what it does to the session state and which notice it shows.
  The reset button sits in the sidebar and is handled first; \<^verbatim>\<open>st.rerun()\<close> ends the
  run there. The balance form exists only while the ledger is not initialized and the
  expense form only once it is, so a click of a button that the run does not draw is
  never read.
\<close>

definition main ::
  "('a :: {zero, plus, minus, linorder}) session_store \<Rightarrow> nat \<Rightarrow> nat \<Rightarrow> 'a event
     \<Rightarrow> 'a session_state \<times> 'a message option" where
  "main st now today ev =
     (let s = initialize_session_state st in
      if ev = Reset_All_Data then
        (s\<lparr>transactions := [], initial_balance := 0, is_initialized := False\<rparr>,
         Some Data_reset_successfully)
      else if \<not> is_initialized s then
        (case ev of
           Set_Initial_Balance initial_balance_input \<Rightarrow>
             if initial_balance_input > 0 then
               (s\<lparr>initial_balance := initial_balance_input, is_initialized := True\<rparr>,
                Some (Initial_balance_set_successfully initial_balance_input))
             else (s, Some Please_enter_a_positive_amount)
         | _ \<Rightarrow> (s, None))
      else
        (case ev of
           Add_Expense expense_amount expense_description \<Rightarrow>
             if expense_amount > 0 then
               let desc = (if expense_description \<noteq> [] then expense_description
                           else ''General Expense'');
                   s' = add_transaction now today expense_amount desc s;
                   new_balance = calculate_current_balance s'
               in (s',
                   Some (if new_balance < 0 then Exceeded_initial_balance
                         else if new_balance = 0 then Spent_all_your_money
                         else Expense_added_successfully expense_amount))
             else (s, Some Please_enter_a_valid_expense_amount)
         | _ \<Rightarrow> (s, None)))"

section \<open>Refusals and sessions\<close>

text \<open>
  The error kinds of the ledger's command interface. The script signals a refused
  command with an \<^verbatim>\<open>st.error\<close> notice; it has two of them, both for an amount that
  is not positive. \<open>failure\<close> reads the error kind off the notice of a run.
\<close>

datatype error = InvalidAmount | NotInitialized | AlreadyInitialized

fun failure :: "'a message option \<Rightarrow> error option" where
  "failure (Some Please_enter_a_positive_amount) = Some InvalidAmount"
| "failure (Some Please_enter_a_valid_expense_amount) = Some InvalidAmount"
| "failure _ = None"

text \<open>
  A session starts with an empty dictionary. Streamlit keeps the dictionary between the
  runs of the script, so a session is a sequence of runs, each with its clock readings
  and its click, threaded through \<^const>\<open>main\<close>.
\<close>

definition fresh_session :: "('a :: {zero, plus, minus, linorder}) session_state" where
  "fresh_session = initialize_session_state empty_store"

definition run_script ::
  "('a :: {zero, plus, minus, linorder}) session_state \<Rightarrow> nat \<times> nat \<times> 'a event
     \<Rightarrow> 'a session_state" where
  "run_script s inp = (case inp of (now, today, ev) \<Rightarrow> fst (main (store_of s) now today ev))"

definition run_session ::
  "(nat \<times> nat \<times> ('a :: {zero, plus, minus, linorder}) event) list \<Rightarrow> 'a session_state" where
  "run_session inps = foldl run_script fresh_session inps"

section \<open>Example ledgers\<close>

text \<open>
  Two ledgers of the specification's scenarios, in exact decimals: a balance of 1000
  with the expenses 200 (Groceries) and 150 (Gas), and a balance of 100 overdrawn by a
  rent of 150.
\<close>

definition groceries_gas :: "rat session_state" where
  "groceries_gas =
     \<lparr>transactions =
        [\<lparr>amount = 200, description = ''Groceries'', timestamp = 1, date = 1\<rparr>,
         \<lparr>amount = 150, description = ''Gas'', timestamp = 2, date = 1\<rparr>],
      initial_balance = 1000, is_initialized = True\<rparr>"

definition rent :: "rat session_state" where
  "rent =
     \<lparr>transactions = [\<lparr>amount = 150, description = ''Rent'', timestamp = 1, date = 1\<rparr>],
      initial_balance = 100, is_initialized = True\<rparr>"

text \<open>
  A ledger whose descriptions differ only in the case of a letter or in a trailing
  blank.
\<close>

definition tea :: "rat session_state" where
  "tea =
     \<lparr>transactions =
        [\<lparr>amount = 1, description = ''Tea'', timestamp = 1, date = 1\<rparr>,
         \<lparr>amount = 2, description = ''tea'', timestamp = 2, date = 1\<rparr>,
         \<lparr>amount = 4, description = ''Tea '', timestamp = 3, date = 1\<rparr>,
         \<lparr>amount = 8, description = ''Tea'', timestamp = 4, date = 2\<rparr>],
      initial_balance = 20, is_initialized = True\<rparr>"

text \<open>
  Three ledgers in floats: the overdrawn one; a balance of \<open>10.0\<close> with three expenses
  of \<open>0.1\<close>; and a balance of \<open>1.0\<close> with the expenses \<open>0.01\<close> and \<open>0.04\<close> on coffee and
  \<open>0.01\<close> on gum.
\<close>

definition rent_float :: "float64 session_state" where
  "rent_float =
     \<lparr>transactions =
        [\<lparr>amount = float 150, description = ''Rent'', timestamp = 1, date = 1\<rparr>],
      initial_balance = float 100, is_initialized = True\<rparr>"


definition cents :: "float64 session_state" where
  "cents =
     \<lparr>transactions =
        [\<lparr>amount = float (1 / 100), description = ''Coffee'', timestamp = 1, date = 1\<rparr>,
         \<lparr>amount = float (1 / 100), description = ''Gum'', timestamp = 2, date = 1\<rparr>,
         \<lparr>amount = float (4 / 100), description = ''Coffee'', timestamp = 3, date = 1\<rparr>],
      initial_balance = float 1, is_initialized = True\<rparr>"

section \<open>Properties\<close>

subsection \<open>Rounding to binary64\<close>

text \<open>
  The exponent that \<^const>\<open>exponent_of\<close> computes is the right one, and the only one.
\<close>

lemma exponent_of_bounds:
  assumes "0 < x"
  shows "2 powi exponent_of x \<le> x \<and> x < 2 powi (exponent_of x + 1)"
proof -
  obtain p q where pq: "quotient_of x = (p, q)" by (cases "quotient_of x")
  then have q: "0 < q" by (rule quotient_of_denom_pos)
  from pq have x: "x = of_int p / of_int q" by (rule quotient_of_div)
  with assms q have p: "0 < p" by (simp add: zero_less_divide_iff)
  define bp where "bp = bitlen p"
  define bq where "bq = bitlen q"
  have bp1: "1 \<le> bp" using p bitlen_eq_zero_iff [of p] bitlen_nonneg [of p] by (simp add: bp_def)
  have bq1: "1 \<le> bq" using q bitlen_eq_zero_iff [of q] bitlen_nonneg [of q] by (simp add: bq_def)
  from bitlen_bounds [OF p] have "(2::int) ^ nat (bp - 1) \<le> p" "p < 2 ^ nat bp"
    by (simp_all add: bp_def)
  then have "(of_int ((2::int) ^ nat (bp - 1)) :: rat) \<le> of_int p" "(of_int p :: rat) < of_int (2 ^ nat bp)"
    by (simp_all only: of_int_le_iff of_int_less_iff)
  then have P: "(2::rat) powi (bp - 1) \<le> of_int p" "(of_int p :: rat) < 2 powi bp"
    using bp1 by (simp_all add: power_int_def)
  from bitlen_bounds [OF q] have "(2::int) ^ nat (bq - 1) \<le> q" "q < 2 ^ nat bq"
    by (simp_all add: bq_def)
  then have "(of_int ((2::int) ^ nat (bq - 1)) :: rat) \<le> of_int q" "(of_int q :: rat) < of_int (2 ^ nat bq)"
    by (simp_all only: of_int_le_iff of_int_less_iff)
  then have Q: "(2::rat) powi (bq - 1) \<le> of_int q" "(of_int q :: rat) < 2 powi bq"
    using bq1 by (simp_all add: power_int_def)
  have qpos: "(0::rat) < of_int q" using q by simp
  have ppos: "(0::rat) < of_int p" using p by simp
  have upper: "x < 2 powi (bp - bq + 1)"
  proof -
    have "of_int p < (2::rat) powi bp" by (rule P)
    also have "\<dots> = 2 powi (bp - bq + 1) * 2 powi (bq - 1)"
      by (simp flip: power_int_add)
    also have "\<dots> \<le> 2 powi (bp - bq + 1) * of_int q"
      using Q(1) by (simp add: mult_left_mono)
    finally show ?thesis using qpos by (simp add: x pos_divide_less_eq)
  qed
  have lower: "2 powi (bp - bq - 1) \<le> x"
  proof -
    have "(2::rat) powi (bp - bq - 1) * of_int q \<le> 2 powi (bp - bq - 1) * 2 powi bq"
      using Q(2) by (simp add: mult_left_mono)
    also have "\<dots> = 2 powi (bp - 1)"
      by (simp flip: power_int_add)
    also have "\<dots> \<le> of_int p" by (rule P)
    finally show ?thesis using qpos by (simp add: x pos_le_divide_eq)
  qed
  show ?thesis
  proof (cases "2 powi (bp - bq) \<le> x")
    case True
    then have "exponent_of x = bp - bq"
      by (simp add: exponent_of_def pq bp_def bq_def)
    with True upper show ?thesis by simp
  next
    case False
    then have "exponent_of x = bp - bq - 1"
      by (simp add: exponent_of_def pq bp_def bq_def)
    with False lower show ?thesis by simp
  qed
qed

lemma exponent_of_unique:
  assumes "2 powi k \<le> x" and "x < 2 powi (k + 1)"
  shows "exponent_of x = k"
proof -
  have "(0::rat) < 2 powi k" by simp
  then have pos: "0 < x" using assms(1) by (rule less_le_trans)
  from exponent_of_bounds [OF pos]
  have b: "2 powi exponent_of x \<le> x" "x < 2 powi (exponent_of x + 1)" by simp_all
  have "(2::rat) powi k < 2 powi (exponent_of x + 1)"
    using assms(1) b(2) by (rule le_less_trans)
  then have 1: "k < exponent_of x + 1"
    by (metis not_less power_int_increasing one_le_numeral)
  have "(2::rat) powi exponent_of x < 2 powi (k + 1)"
    using b(1) assms(2) by (rule le_less_trans)
  then have 2: "exponent_of x < k + 1"
    by (metis not_less power_int_increasing one_le_numeral)
  from 1 2 show ?thesis by simp
qed


lemma round_binary64_pos:
  assumes "2 powi (e + 52) \<le> x" and "x < 2 powi (e + 53)"
  shows "round_binary64 x = of_int (round_half_even (x / 2 powi e)) * 2 powi e"
proof -
  have "(0::rat) < 2 powi (e + 52)" by simp
  then have pos: "0 < x" using assms(1) by (rule less_le_trans)
  have "exponent_of x = e + 52"
    using assms by (intro exponent_of_unique) (simp_all add: add.commute add.left_commute)
  with pos show ?thesis by (simp add: round_binary64_def)
qed





lemma round_half_even_ratio:
  assumes "0 < b"
  shows "round_half_even (of_int a / of_int b) =
     (if 2 * (a mod b) < b then a div b
      else if b < 2 * (a mod b) then a div b + 1
      else if even (a div b) then a div b else a div b + 1)"
proof -
  have fl: "\<lfloor>(of_int a :: rat) / of_int b\<rfloor> = a div b"
    by (rule floor_divide_of_int_eq)
  have "(of_int a :: rat) = of_int (a div b) * of_int b + of_int (a mod b)"
    by (simp flip: of_int_mult of_int_add)
  then have r: "(of_int a :: rat) / of_int b - of_int (a div b) = of_int (a mod b) / of_int b"
    using assms by (simp add: field_simps)
  have bpos: "(0::rat) < of_int b" using assms by simp
  have lt: "(of_int (a mod b) / of_int b < (1::rat) / 2) = (2 * (a mod b) < b)"
  proof -
    have "(of_int (a mod b) / of_int b < (1::rat) / 2) = ((of_int (2 * (a mod b)) :: rat) < of_int b)"
      using bpos by (simp add: field_simps)
    then show ?thesis by (simp only: of_int_less_iff)
  qed
  have gt: "((1::rat) / 2 < of_int (a mod b) / of_int b) = (b < 2 * (a mod b))"
  proof -
    have "((1::rat) / 2 < of_int (a mod b) / of_int b) = ((of_int b :: rat) < of_int (2 * (a mod b)))"
      using bpos by (simp add: field_simps)
    then show ?thesis by (simp only: of_int_less_iff)
  qed
  show ?thesis
    unfolding round_half_even_def Let_def fl r lt gt ..
qed

lemma round_half_even_numeral:
  "round_half_even (numeral a / numeral b) =
     (if 2 * (numeral a mod numeral b) < (numeral b :: int) then numeral a div numeral b
      else if (numeral b :: int) < 2 * (numeral a mod numeral b) then numeral a div numeral b + 1
      else if even (numeral a div numeral b :: int) then numeral a div numeral b
      else numeral a div numeral b + 1)"
  using round_half_even_ratio [of "numeral b" "numeral a"] by simp

lemma round_half_even_of_int: "round_half_even (of_int n) = n"
  by (simp add: round_half_even_def)

lemma round_half_even_whole: "round_half_even (numeral a) = numeral a"
  using round_half_even_of_int [of "numeral a"] by simp


subsection \<open>Exact numbers\<close>

text \<open>
  On exact numbers, Python's \<^verbatim>\<open>sum\<close> is the sum, and subtracting the items one after
  the other subtracts their sum.
\<close>

lemma foldl_plus_sum_list: "foldl (+) a xs = a + sum_list (xs :: rat list)"
  by (induction xs arbitrary: a) (simp_all add: add.assoc)



subsection \<open>The session dictionary\<close>

text \<open>A dictionary that holds all three keys is left as it is.\<close>

lemma initialize_store_of: "initialize_session_state (store_of s) = s"
  by (simp add: initialize_session_state_def store_of_def)

subsection \<open>The loop of the balance series\<close>

lemma balance_loop_running:
  "fst (balance_loop ts (rb, bh, ds)) = foldl (-) rb (map amount ts)"
  by (induction ts arbitrary: rb bh ds) simp_all

lemma balance_loop_dates: "snd (snd (balance_loop ts (rb, bh, ds))) = ds @ map date ts"
  by (induction ts arbitrary: rb bh ds) simp_all

lemma balance_loop_length:
  "length (fst (snd (balance_loop ts (rb, bh, ds)))) = length bh + length ts"
  by (induction ts arbitrary: rb bh ds) simp_all

lemma balance_loop_prefix:
  "i < length bh \<Longrightarrow> fst (snd (balance_loop ts (rb, bh, ds))) ! i = bh ! i"
  by (induction ts arbitrary: rb bh ds) (simp_all add: nth_append)

lemma balance_loop_nth:
  "i < length ts \<Longrightarrow>
   fst (snd (balance_loop ts (rb, bh, ds))) ! (length bh + i) =
     foldl (-) rb (map amount (take (Suc i) ts))"
proof (induction ts arbitrary: rb bh ds i)
  case Nil
  then show ?case by simp
next
  case (Cons t ts)
  show ?case
  proof (cases i)
    case 0
    then show ?thesis
      using balance_loop_prefix [of "length bh" "bh @ [rb - amount t]" ts "rb - amount t" "ds @ [date t]"]
      by simp
  next
    case (Suc j)
    with Cons.prems have j: "j < length ts" by simp
    from Cons.IH [OF j, of "rb - amount t" "bh @ [rb - amount t]" "ds @ [date t]"] Suc
    show ?thesis by simp
  qed
qed

lemma balance_loop_history:
  "fst (snd (balance_loop ts (rb, [rb], ds))) =
     map (\<lambda>i. foldl (-) rb (map amount (take i ts))) [0 ..< Suc (length ts)]"
proof (rule nth_equalityI)
  show "length (fst (snd (balance_loop ts (rb, [rb], ds)))) =
        length (map (\<lambda>i. foldl (-) rb (map amount (take i ts))) [0 ..< Suc (length ts)])"
    by (simp add: balance_loop_length)
next
  fix i assume "i < length (fst (snd (balance_loop ts (rb, [rb], ds))))"
  then have i: "i < Suc (length ts)" by (simp add: balance_loop_length)
  have rhs: "map (\<lambda>i. foldl (-) rb (map amount (take i ts))) [0 ..< Suc (length ts)] ! i =
             foldl (-) rb (map amount (take i ts))"
    using i by (simp del: upt_Suc)
  show "fst (snd (balance_loop ts (rb, [rb], ds))) ! i =
        map (\<lambda>i. foldl (-) rb (map amount (take i ts))) [0 ..< Suc (length ts)] ! i"
  proof (cases i)
    case 0
    with rhs show ?thesis
      using balance_loop_prefix [of 0 "[rb]" ts rb ds] by simp
  next
    case (Suc j)
    with i have j: "j < length ts" by simp
    from balance_loop_nth [OF j, of rb "[rb]" ds] Suc rhs show ?thesis
      by simp
  qed
qed

lemma create_balance_visualization_Some:
  assumes "transactions s \<noteq> []"
  shows "create_balance_visualization today s =
     Some \<lparr>Date = date (hd (transactions s)) # map date (transactions s),
           Balance = map (\<lambda>i. foldl (-) (initial_balance s) (map amount (take i (transactions s))))
                       [0 ..< Suc (length (transactions s))],
           Transaction = [0 ..< Suc (length (transactions s))]\<rparr>"
proof -
  obtain rb bh ds where r: "balance_loop (transactions s) (initial_balance s, [initial_balance s], [date (hd (transactions s))]) = (rb, bh, ds)"
    by (metis prod_cases3)
  have bh: "bh = map (\<lambda>i. foldl (-) (initial_balance s) (map amount (take i (transactions s))))
                       [0 ..< Suc (length (transactions s))]"
    using balance_loop_history [of "transactions s" "initial_balance s" "[date (hd (transactions s))]"] r
    by simp
  have ds: "ds = date (hd (transactions s)) # map date (transactions s)"
    using balance_loop_dates [of "transactions s" "initial_balance s" "[initial_balance s]" "[date (hd (transactions s))]"] r
    by simp
  have hd: "(case transactions s of t # _ \<Rightarrow> date t | [] \<Rightarrow> today) = date (hd (transactions s))"
    using assms by (cases "transactions s") simp_all
  show ?thesis
    using assms r by (simp add: create_balance_visualization_def hd bh ds del: upt_Suc)
qed


subsection \<open>The loop of the expense breakdown\<close>

lemma expense_loop_distinct:
  "distinct (map fst d) \<Longrightarrow> distinct (map fst (expense_loop ts d))"
  by (induction ts arbitrary: d) (simp_all add: Let_def distinct_update split: option.split)

lemma expense_loop_keys:
  "fst ` set (expense_loop ts d) = fst ` set d \<union> description ` set ts"
  by (induction ts arbitrary: d) (auto simp add: Let_def dom_update split: option.split)

text \<open>
  The value of a key: the amounts of its transactions, added from left to right onto
  the value the dictionary had, or onto the first of them when the key is new.
\<close>

lemma expense_loop_map_of:
  "map_of (expense_loop ts d) k =
     (case map_of d k of
        Some v \<Rightarrow> Some (foldl (+) v (map amount (filter (\<lambda>t. description t = k) ts)))
      | None \<Rightarrow>
          (case map amount (filter (\<lambda>t. description t = k) ts) of
             [] \<Rightarrow> None
           | a # as \<Rightarrow> Some (foldl (+) a as)))"
  by (induction ts arbitrary: d)
     (auto simp add: Let_def update_conv' split: option.split list.split)

lemma expense_loop_length:
  "length (expense_loop ts []) = card (description ` set ts)"
proof -
  have "distinct (map fst (expense_loop ts []))"
    by (rule expense_loop_distinct) simp
  then have "card (set (map fst (expense_loop ts []))) = length (map fst (expense_loop ts []))"
    by (rule distinct_card)
  then show ?thesis by (simp add: expense_loop_keys)
qed

lemma expense_loop_nth:
  assumes "i < length (expense_loop ts [])"
  shows "\<exists>a as. map amount (filter (\<lambda>t. description t = fst (expense_loop ts [] ! i)) ts) = a # as
           \<and> snd (expense_loop ts [] ! i) = foldl (+) a as"
proof -
  let ?d = "expense_loop ts []"
  have dist: "distinct (map fst ?d)" by (rule expense_loop_distinct) simp
  have "?d ! i \<in> set ?d" using assms by simp
  then have "(fst (?d ! i), snd (?d ! i)) \<in> set ?d" by simp
  with dist have "map_of ?d (fst (?d ! i)) = Some (snd (?d ! i))"
    by (rule map_of_is_SomeI)
  then show ?thesis
    by (simp add: expense_loop_map_of split: list.splits)
qed

text \<open>On exact numbers the values add up to the sum of all amounts.\<close>

lemma sum_snd_update:
  "sum_list (map snd (AList.update k v d)) =
     (case map_of d k of
        Some v0 \<Rightarrow> sum_list (map snd d) - v0 + (v :: rat)
      | None \<Rightarrow> sum_list (map snd d) + v)"
  by (induction d) (auto split: option.split)

lemma expense_loop_sum:
  "sum_list (map snd (expense_loop ts d)) =
     sum_list (map snd d) + sum_list (map amount ts :: rat list)"
  by (induction ts arbitrary: d) (simp_all add: Let_def sum_snd_update split: option.split)

lemma expense_loop_nth_exact:
  fixes ts :: "rat transaction list"
  assumes "i < length (expense_loop ts [])"
  shows "snd (expense_loop ts [] ! i) =
     sum_list (map amount (filter (\<lambda>t. description t = fst (expense_loop ts [] ! i)) ts))"
proof -
  from expense_loop_nth [OF assms] show ?thesis
    by (auto simp add: foldl_plus_sum_list)
qed

subsection \<open>One run of the script, by the state of the ledger\<close>

lemma fresh_session_eq:
  "fresh_session = \<lparr>transactions = [], initial_balance = 0, is_initialized = False\<rparr>"
  by (simp add: fresh_session_def initialize_session_state_def empty_store_def)

lemma main_uninitialized:
  "\<not> is_initialized s \<Longrightarrow>
   main (store_of s) now today ev =
     (case ev of
        Reset_All_Data \<Rightarrow>
          (s\<lparr>transactions := [], initial_balance := 0, is_initialized := False\<rparr>,
           Some Data_reset_successfully)
      | Set_Initial_Balance a \<Rightarrow>
          if 0 < a then (s\<lparr>initial_balance := a, is_initialized := True\<rparr>,
                         Some (Initial_balance_set_successfully a))
          else (s, Some Please_enter_a_positive_amount)
      | _ \<Rightarrow> (s, None))"
  by (cases ev) (simp_all add: main_def initialize_store_of)

lemma main_initialized:
  "is_initialized s \<Longrightarrow>
   main (store_of s) now today ev =
     (case ev of
        Reset_All_Data \<Rightarrow>
          (s\<lparr>transactions := [], initial_balance := 0, is_initialized := False\<rparr>,
           Some Data_reset_successfully)
      | Add_Expense a d \<Rightarrow>
          if 0 < a then
            (add_transaction now today a (if d \<noteq> [] then d else ''General Expense'') s,
             Some (if calculate_current_balance
                        (add_transaction now today a
                           (if d \<noteq> [] then d else ''General Expense'') s) < 0
                   then Exceeded_initial_balance
                   else if calculate_current_balance
                        (add_transaction now today a
                           (if d \<noteq> [] then d else ''General Expense'') s) = 0
                   then Spent_all_your_money
                   else Expense_added_successfully a))
          else (s, Some Please_enter_a_valid_expense_amount)
      | _ \<Rightarrow> (s, None))"
  by (cases ev) (simp_all add: main_def initialize_store_of Let_def)

subsection \<open>Sessions\<close>

lemma run_script_invariant:
  assumes "\<not> is_initialized s \<longrightarrow> initial_balance s = 0 \<and> transactions s = []"
  shows "\<not> is_initialized (run_script s inp) \<longrightarrow>
           initial_balance (run_script s inp) = 0 \<and> transactions (run_script s inp) = []"
proof (cases inp)
  case (fields now today ev)
  show ?thesis
  proof (cases "is_initialized s")
    case True
    then show ?thesis
      using fields by (cases ev) (simp_all add: run_script_def main_initialized add_transaction_def)
  next
    case False
    with assms show ?thesis
      using fields by (cases ev) (simp_all add: run_script_def main_uninitialized)
  qed
qed

lemma run_session_snoc:
  "run_session (inps @ [inp]) = run_script (run_session inps) inp"
  by (simp add: run_session_def)

lemma run_session_invariant:
  "\<not> is_initialized (run_session inps) \<longrightarrow>
     initial_balance (run_session inps) = 0 \<and> transactions (run_session inps) = []"
proof (induction inps rule: rev_induct)
  case Nil
  show ?case by (simp add: run_session_def fresh_session_eq)
next
  case (snoc inp inps)
  then show ?case
    unfolding run_session_snoc by (rule run_script_invariant)
qed

subsection \<open>The example ledgers in floats\<close>




lemma float_1: "float (1) = Float64 (1)"
  using round_binary64_pos [of "- 52" "1"]
  by (simp add: float_def round_half_even_numeral round_half_even_whole)


lemma float_1_cent: "float (1 / 100) = Float64 (5764607523034235 / 576460752303423488)"
  using round_binary64_pos [of "- 59" "1 / 100"]
  by (simp add: float_def round_half_even_numeral round_half_even_whole)

lemma float_4_cents: "float (1 / 25) = Float64 (5764607523034235 / 144115188075855872)"
  using round_binary64_pos [of "- 57" "1 / 25"]
  by (simp add: float_def round_half_even_numeral round_half_even_whole)

lemma float_5_cents: "float (1 / 20) = Float64 (3602879701896397 / 72057594037927936)"
  using round_binary64_pos [of "- 57" "1 / 20"]
  by (simp add: float_def round_half_even_numeral round_half_even_whole)

lemma float_6_cents: "float (3 / 50) = Float64 (1080863910568919 / 18014398509481984)"
  using round_binary64_pos [of "- 57" "3 / 50"]
  by (simp add: float_def round_half_even_numeral round_half_even_whole)










lemma cents_coffee:
  "Float64 (5764607523034235 / 576460752303423488) + Float64 (5764607523034235 / 144115188075855872) = Float64 (3602879701896397 / 72057594037927936)"
proof -
  have x: "(5764607523034235 / 576460752303423488) + (5764607523034235 / 144115188075855872) = (28823037615171175 / 576460752303423488 :: rat)" by simp
  have r: "round_binary64 (28823037615171175 / 576460752303423488) = 3602879701896397 / 72057594037927936"
    using round_binary64_pos [of "- 57" "28823037615171175 / 576460752303423488"]
    by (simp add: round_half_even_numeral round_half_even_whole)
  show ?thesis by (simp only: plus_float64_def float64.sel x r)
qed

lemma cents_totals_1:
  "Float64 (0) + Float64 (3602879701896397 / 72057594037927936) = Float64 (3602879701896397 / 72057594037927936)"
proof -
  have x: "(0) + (3602879701896397 / 72057594037927936) = (3602879701896397 / 72057594037927936 :: rat)" by simp
  have r: "round_binary64 (3602879701896397 / 72057594037927936) = 3602879701896397 / 72057594037927936"
    using round_binary64_pos [of "- 57" "3602879701896397 / 72057594037927936"]
    by (simp add: round_half_even_numeral round_half_even_whole)
  show ?thesis by (simp only: plus_float64_def float64.sel x r)
qed

lemma cents_totals_2:
  "Float64 (3602879701896397 / 72057594037927936) + Float64 (5764607523034235 / 576460752303423488) = Float64 (8646911284551353 / 144115188075855872)"
proof -
  have x: "(3602879701896397 / 72057594037927936) + (5764607523034235 / 576460752303423488) = (34587645138205411 / 576460752303423488 :: rat)" by simp
  have r: "round_binary64 (34587645138205411 / 576460752303423488) = 8646911284551353 / 144115188075855872"
    using round_binary64_pos [of "- 57" "34587645138205411 / 576460752303423488"]
    by (simp add: round_half_even_numeral round_half_even_whole)
  show ?thesis by (simp only: plus_float64_def float64.sel x r)
qed

lemma cents_sum_1:
  "Float64 (0) + Float64 (5764607523034235 / 576460752303423488) = Float64 (5764607523034235 / 576460752303423488)"
proof -
  have x: "(0) + (5764607523034235 / 576460752303423488) = (5764607523034235 / 576460752303423488 :: rat)" by simp
  have r: "round_binary64 (5764607523034235 / 576460752303423488) = 5764607523034235 / 576460752303423488"
    using round_binary64_pos [of "- 59" "5764607523034235 / 576460752303423488"]
    by (simp add: round_half_even_numeral round_half_even_whole)
  show ?thesis by (simp only: plus_float64_def float64.sel x r)
qed

lemma cents_sum_2:
  "Float64 (5764607523034235 / 576460752303423488) + Float64 (5764607523034235 / 576460752303423488) = Float64 (5764607523034235 / 288230376151711744)"
proof -
  have x: "(5764607523034235 / 576460752303423488) + (5764607523034235 / 576460752303423488) = (5764607523034235 / 288230376151711744 :: rat)" by simp
  have r: "round_binary64 (5764607523034235 / 288230376151711744) = 5764607523034235 / 288230376151711744"
    using round_binary64_pos [of "- 58" "5764607523034235 / 288230376151711744"]
    by (simp add: round_half_even_numeral round_half_even_whole)
  show ?thesis by (simp only: plus_float64_def float64.sel x r)
qed

lemma cents_sum_3:
  "Float64 (5764607523034235 / 288230376151711744) + Float64 (5764607523034235 / 144115188075855872) = Float64 (1080863910568919 / 18014398509481984)"
proof -
  have x: "(5764607523034235 / 288230376151711744) + (5764607523034235 / 144115188075855872) = (17293822569102705 / 288230376151711744 :: rat)" by simp
  have r: "round_binary64 (17293822569102705 / 288230376151711744) = 1080863910568919 / 18014398509481984"
    using round_binary64_pos [of "- 57" "17293822569102705 / 288230376151711744"]
    by (simp add: round_half_even_numeral round_half_even_whole)
  show ?thesis by (simp only: plus_float64_def float64.sel x r)
qed

section \<open>The claims about the balance\<close>



text \<open>
  Claim C2. The running balance series is absent when the transaction list is empty.
  When the list is not empty, the series has one point more than there are transactions,
  its first point carries the initial balance and the date of the first transaction, and
  every later point carries the balance of the point before it minus the amount of the
  corresponding transaction (and that transaction's date), in ledger order.
\<close>

theorem create_balance_visualization_series:
  "(transactions s = [] \<longrightarrow> create_balance_visualization today s = None)
   \<and> (transactions s \<noteq> [] \<longrightarrow>
        (\<exists>df. create_balance_visualization today s = Some df
           \<and> length (Balance df) = length (transactions s) + 1
           \<and> length (Date df) = length (transactions s) + 1
           \<and> Transaction df = [0 ..< length (transactions s) + 1]
           \<and> Balance df ! 0 = initial_balance s
           \<and> Date df ! 0 = date (transactions s ! 0)
           \<and> (\<forall>i < length (transactions s).
                 Balance df ! Suc i = Balance df ! i - amount (transactions s ! i)
               \<and> Date df ! Suc i = date (transactions s ! i))))"
proof (intro conjI impI)
  assume "transactions s = []"
  then show "create_balance_visualization today s = None"
    by (simp add: create_balance_visualization_def)
next
  assume ne: "transactions s \<noteq> []"
  let ?ts = "transactions s"
  let ?bal = "map (\<lambda>i. foldl (-) (initial_balance s) (map amount (take i ?ts))) [0 ..< Suc (length ?ts)]"
  let ?df = "\<lparr>Date = date (hd ?ts) # map date ?ts, Balance = ?bal,
              Transaction = [0 ..< Suc (length ?ts)]\<rparr>"
  have nth: "?bal ! i = foldl (-) (initial_balance s) (map amount (take i ?ts))"
    if "i \<le> length ?ts" for i
    using that by (simp del: upt_Suc)
  have step: "?bal ! Suc i = ?bal ! i - amount (?ts ! i)" if i: "i < length ?ts" for i
  proof -
    have "take (Suc i) ?ts = take i ?ts @ [?ts ! i]"
      using i by (rule take_Suc_conv_app_nth)
    with nth [of i] nth [of "Suc i"] i show ?thesis by simp
  qed
  have "create_balance_visualization today s = Some ?df"
    using ne by (rule create_balance_visualization_Some)
  moreover have "length (Balance ?df) = length ?ts + 1" by simp
  moreover have "length (Date ?df) = length ?ts + 1" by simp
  moreover have "Transaction ?df = [0 ..< length ?ts + 1]" by simp
  moreover have "Balance ?df ! 0 = initial_balance s" using nth [of 0] by simp
  moreover have "Date ?df ! 0 = date (?ts ! 0)" using ne by (simp add: hd_conv_nth)
  moreover have "\<forall>i < length ?ts. Balance ?df ! Suc i = Balance ?df ! i - amount (?ts ! i)
                   \<and> Date ?df ! Suc i = date (?ts ! i)"
    using step by simp
  ultimately show "\<exists>df. create_balance_visualization today s = Some df
           \<and> length (Balance df) = length (transactions s) + 1
           \<and> length (Date df) = length (transactions s) + 1
           \<and> Transaction df = [0 ..< length (transactions s) + 1]
           \<and> Balance df ! 0 = initial_balance s
           \<and> Date df ! 0 = date (transactions s ! 0)
           \<and> (\<forall>i < length (transactions s).
                 Balance df ! Suc i = Balance df ! i - amount (transactions s ! i)
               \<and> Date df ! Suc i = date (transactions s ! i))"
    by blast
qed

text \<open>
  On the ledger of 1000 with the expenses 200 and 150 the series of balances is
  1000, 800, 650.
\<close>

theorem create_balance_visualization_series_witness:
  "transactions groceries_gas \<noteq> []
   \<and> (\<exists>df. create_balance_visualization 0 groceries_gas = Some df
         \<and> length (Balance df) = 3
         \<and> Balance df = [1000, 800, 650])"
proof -
  have ne: "transactions groceries_gas \<noteq> []" by (simp add: groceries_gas_def)
  from create_balance_visualization_series [of groceries_gas 0, THEN conjunct2, THEN mp, OF ne]
  obtain df where df: "create_balance_visualization 0 groceries_gas = Some df"
    and len: "length (Balance df) = length (transactions groceries_gas) + 1"
    and first: "Balance df ! 0 = initial_balance groceries_gas"
    and step: "\<forall>i < length (transactions groceries_gas).
                 Balance df ! Suc i = Balance df ! i - amount (transactions groceries_gas ! i)
               \<and> Date df ! Suc i = date (transactions groceries_gas ! i)"
    by blast
  from len have l3: "length (Balance df) = 3" by (simp add: groceries_gas_def)
  from first have b0: "Balance df ! 0 = 1000" by (simp add: groceries_gas_def)
  from step have "Balance df ! Suc 0 = Balance df ! 0 - amount (transactions groceries_gas ! 0)"
    by (simp add: groceries_gas_def)
  with b0 have b1: "Balance df ! Suc 0 = 800" by (simp add: groceries_gas_def)
  from step have "Balance df ! Suc (Suc 0) =
      Balance df ! Suc 0 - amount (transactions groceries_gas ! Suc 0)"
    by (simp add: groceries_gas_def)
  with b1 have b2: "Balance df ! Suc (Suc 0) = 650" by (simp add: groceries_gas_def)
  have "Balance df = [1000, 800, 650]"
  proof (rule nth_equalityI)
    show "length (Balance df) = length [1000, 800, 650 :: rat]" using l3 by simp
  next
    fix i assume "i < length (Balance df)"
    with l3 have "i = 0 \<or> i = Suc 0 \<or> i = Suc (Suc 0)" by arith
    with b0 b1 b2 show "Balance df ! i = [1000, 800, 650] ! i" by auto
  qed
  with df l3 ne show ?thesis by blast
qed




section \<open>The claim about the expense breakdown\<close>

text \<open>
  Claim C3, as the specification states it, has the group totals add up to the sum of
  all transaction amounts. Each total is rounded when an amount is added to it, so in
  floats they do not. With \<open>0.01\<close> and \<open>0.04\<close> spent on coffee and \<open>0.01\<close> on gum the totals
  are \<open>0.05\<close> and \<open>0.01\<close>; added up as the script adds they give \<open>0.060000000000000005\<close>
  while the amounts give \<open>0.06\<close>, and their exact values differ as well:
\<close>

theorem create_expense_breakdown_counterexample:
  "create_expense_breakdown cents =
     Some \<lparr>pie_values = [float (5 / 100), float (1 / 100)],
           pie_names = [''Coffee'', ''Gum'']\<rparr>
   \<and> sum_builtin [float (5 / 100), float (1 / 100)] =
       Float64 (8646911284551353 / 144115188075855872)
   \<and> sum_builtin (map amount (transactions cents)) = float (6 / 100)
   \<and> sum_builtin [float (5 / 100), float (1 / 100)] \<noteq>
       sum_builtin (map amount (transactions cents))
   \<and> sum_list (map val [float (5 / 100), float (1 / 100)]) \<noteq>
       sum_list (map val (map amount (transactions cents)))"
proof -
  have b: "create_expense_breakdown cents =
     Some \<lparr>pie_values = [float (5 / 100), float (1 / 100)],
           pie_names = [''Coffee'', ''Gum'']\<rparr>"
    by (simp add: cents_def create_expense_breakdown_def Let_def
        float_1_cent float_4_cents float_5_cents cents_coffee)
  have t: "sum_builtin [float (5 / 100), float (1 / 100)] =
       Float64 (8646911284551353 / 144115188075855872)"
    by (simp add: sum_builtin_def zero_float64_def float_1_cent float_5_cents
        cents_totals_1 cents_totals_2)
  have a: "sum_builtin (map amount (transactions cents)) = float (6 / 100)"
    by (simp add: cents_def sum_builtin_def zero_float64_def float_1_cent float_4_cents
        float_6_cents cents_sum_1 cents_sum_2 cents_sum_3)
  have n: "sum_builtin [float (5 / 100), float (1 / 100)] \<noteq>
       sum_builtin (map amount (transactions cents))"
    unfolding t a by (simp add: float_6_cents)
  have x: "sum_list (map val [float (5 / 100), float (1 / 100)]) \<noteq>
       sum_list (map val (map amount (transactions cents)))"
    by (simp add: cents_def float_1_cent float_4_cents float_5_cents)
  from b t a n x show ?thesis by blast
qed

text \<open>
  Claim C3, amended. The expense breakdown groups the transactions by their description,
  compared as the exact string (case and blanks count), and the total of a group is its
  amounts added from left to right; the breakdown is absent when there is no transaction
  or when there are fewer than two distinct descriptions; this holds in every
  arithmetic. On exact decimals each total is the sum of its group and the totals add up
  to the sum of all transaction amounts; in floats the totals are rounded and need not
  add up to it.
\<close>

theorem create_expense_breakdown_spec:
  fixes s :: "('a :: {zero, plus, minus, linorder}) session_state"
    and r :: "rat session_state"
  shows
  "(transactions s = [] \<longrightarrow> create_expense_breakdown s = None)
   \<and> (card (description ` set (transactions s)) < 2 \<longrightarrow> create_expense_breakdown s = None)
   \<and> (2 \<le> card (description ` set (transactions s)) \<longrightarrow>
        (\<exists>p. create_expense_breakdown s = Some p
           \<and> length (pie_values p) = length (pie_names p)
           \<and> distinct (pie_names p)
           \<and> set (pie_names p) = description ` set (transactions s)
           \<and> (\<forall>i < length (pie_names p).
                 \<exists>a as. map amount
                           (filter (\<lambda>t. description t = pie_names p ! i) (transactions s)) =
                         a # as
                       \<and> pie_values p ! i = foldl (+) a as)))
   \<and> (2 \<le> card (description ` set (transactions r)) \<longrightarrow>
        (\<exists>p. create_expense_breakdown r = Some p
           \<and> (\<forall>i < length (pie_names p).
                 pie_values p ! i =
                   sum_list (map amount
                     (filter (\<lambda>t. description t = pie_names p ! i) (transactions r))))
           \<and> sum_list (pie_values p) = sum_list (map amount (transactions r))))"
proof (intro conjI impI)
  show "create_expense_breakdown s = None" if "transactions s = []"
    using that by (simp add: create_expense_breakdown_def)
next
  show "create_expense_breakdown s = None" if "card (description ` set (transactions s)) < 2"
    using that by (simp add: create_expense_breakdown_def Let_def expense_loop_length)
next
  assume c: "2 \<le> card (description ` set (transactions s))"
  let ?ts = "transactions s"
  let ?d = "expense_loop ?ts []"
  let ?p = "\<lparr>pie_values = map snd ?d, pie_names = map fst ?d\<rparr>"
  from c have ne: "?ts \<noteq> []" by auto
  from c have len: "1 < length ?d" by (simp add: expense_loop_length)
  have "create_expense_breakdown s = Some ?p"
    using ne len by (simp add: create_expense_breakdown_def Let_def)
  moreover have "length (pie_values ?p) = length (pie_names ?p)" by simp
  moreover have "distinct (pie_names ?p)"
    using expense_loop_distinct [of "[]" ?ts] by simp
  moreover have "set (pie_names ?p) = description ` set ?ts"
    using expense_loop_keys [of ?ts "[]"] by simp
  moreover have "\<forall>i < length (pie_names ?p).
       \<exists>a as. map amount (filter (\<lambda>t. description t = pie_names ?p ! i) ?ts) = a # as
             \<and> pie_values ?p ! i = foldl (+) a as"
    using expense_loop_nth [of _ ?ts] by simp
  ultimately show "\<exists>p. create_expense_breakdown s = Some p
           \<and> length (pie_values p) = length (pie_names p)
           \<and> distinct (pie_names p)
           \<and> set (pie_names p) = description ` set (transactions s)
           \<and> (\<forall>i < length (pie_names p).
                 \<exists>a as. map amount
                           (filter (\<lambda>t. description t = pie_names p ! i) (transactions s)) =
                         a # as
                       \<and> pie_values p ! i = foldl (+) a as)"
    by blast
next
  assume c: "2 \<le> card (description ` set (transactions r))"
  let ?ts = "transactions r"
  let ?d = "expense_loop ?ts []"
  let ?p = "\<lparr>pie_values = map snd ?d, pie_names = map fst ?d\<rparr>"
  from c have ne: "?ts \<noteq> []" by auto
  from c have len: "1 < length ?d" by (simp add: expense_loop_length)
  have "create_expense_breakdown r = Some ?p"
    using ne len by (simp add: create_expense_breakdown_def Let_def)
  moreover have "\<forall>i < length (pie_names ?p).
       pie_values ?p ! i = sum_list (map amount (filter (\<lambda>t. description t = pie_names ?p ! i) ?ts))"
    using expense_loop_nth_exact [of _ ?ts] by simp
  moreover have "sum_list (pie_values ?p) = sum_list (map amount ?ts)"
    using expense_loop_sum [of ?ts "[]"] by simp
  ultimately show "\<exists>p. create_expense_breakdown r = Some p
           \<and> (\<forall>i < length (pie_names p).
                 pie_values p ! i =
                   sum_list (map amount
                     (filter (\<lambda>t. description t = pie_names p ! i) (transactions r))))
           \<and> sum_list (pie_values p) = sum_list (map amount (transactions r))"
    by blast
qed

text \<open>
  On the ledger \<^const>\<open>tea\<close> the descriptions \<open>''Tea''\<close>, \<open>''tea''\<close> and \<open>''Tea ''\<close> are
  three groups, and the two expenses described \<open>''Tea''\<close> are summed. The float ledger
  \<^const>\<open>cents\<close> has two groups.
\<close>

theorem create_expense_breakdown_spec_witness:
  "2 \<le> card (description ` set (transactions tea))
   \<and> 2 \<le> card (description ` set (transactions cents))
   \<and> create_expense_breakdown tea =
       Some \<lparr>pie_values = [9, 2, 4], pie_names = [''Tea'', ''tea'', ''Tea '']\<rparr>
   \<and> (\<exists>p. create_expense_breakdown tea = Some p \<and> sum_list (pie_values p) = 15)
   \<and> (\<exists>p. create_expense_breakdown cents = Some p
         \<and> distinct (pie_names p) \<and> set (pie_names p) = {''Coffee'', ''Gum''})"
proof -
  have c: "2 \<le> card (description ` set (transactions tea))"
    by (simp add: tea_def card_insert_if)
  have k: "2 \<le> card (description ` set (transactions cents))"
    by (simp add: cents_def card_insert_if)
  have v: "create_expense_breakdown tea =
       Some \<lparr>pie_values = [9, 2, 4], pie_names = [''Tea'', ''tea'', ''Tea '']\<rparr>"
    by (simp add: tea_def create_expense_breakdown_def Let_def)
  note th = create_expense_breakdown_spec [of cents tea]
  from th [THEN conjunct2, THEN conjunct2, THEN conjunct2, THEN mp, OF c]
  obtain p where p: "create_expense_breakdown tea = Some p"
    and t: "sum_list (pie_values p) = sum_list (map amount (transactions tea))"
    by blast
  from t have "sum_list (pie_values p) = 15" by (simp add: tea_def)
  with p have e: "\<exists>p. create_expense_breakdown tea = Some p \<and> sum_list (pie_values p) = 15"
    by blast
  from th [THEN conjunct2, THEN conjunct2, THEN conjunct1, THEN mp, OF k]
  obtain q where q: "create_expense_breakdown cents = Some q"
    and d: "distinct (pie_names q)"
    and n: "set (pie_names q) = description ` set (transactions cents)"
    by blast
  from n have "set (pie_names q) = {''Coffee'', ''Gum''}"
    by (auto simp add: cents_def)
  with q d have g: "\<exists>p. create_expense_breakdown cents = Some p
         \<and> distinct (pie_names p) \<and> set (pie_names p) = {''Coffee'', ''Gum''}"
    by blast
  from c k v e g show ?thesis by blast
qed

section \<open>The claims about the commands\<close>

text \<open>
  Claim C4, as the specification states it: for every ledger that is not initialized and
  every amount, adding an expense fails with \<open>NotInitialized\<close> and leaves the transaction
  list empty. The script has no such refusal. While the ledger is not initialized the
  expense form is not drawn, so a click on it is never read: the run shows no notice at
  all. On a fresh session:
\<close>

theorem add_expense_uninitialized_counterexample:
  "\<not> is_initialized (fresh_session :: float64 session_state)
   \<and> main (store_of fresh_session) 0 0 (Add_Expense (float 10) []) = (fresh_session, None)
   \<and> failure (snd (main (store_of fresh_session) 0 0 (Add_Expense (float 10) []))) \<noteq>
       Some NotInitialized"
proof -
  have u: "\<not> is_initialized (fresh_session :: float64 session_state)"
    by (simp add: fresh_session_eq)
  show ?thesis using u by (simp add: main_uninitialized [OF u])
qed

text \<open>
  Claim C4, amended. For every ledger that is not initialized and every amount, an
  add-expense command is not processed: the run leaves the ledger as it is, so that no
  transaction is appended, and reports no error.
\<close>

theorem add_expense_uninitialized_ignored:
  "\<not> is_initialized s \<Longrightarrow>
     main (store_of s) now today (Add_Expense a d) = (s, None)
   \<and> failure (snd (main (store_of s) now today (Add_Expense a d))) = None
   \<and> transactions (fst (main (store_of s) now today (Add_Expense a d))) = transactions s"
  by (simp add: main_uninitialized)

text \<open>On a fresh session the transaction list is empty and stays empty.\<close>

theorem add_expense_uninitialized_ignored_witness:
  "\<not> is_initialized (fresh_session :: float64 session_state)
   \<and> transactions (fresh_session :: float64 session_state) = []
   \<and> transactions
        (fst (main (store_of fresh_session) 3 4 (Add_Expense (float 10) ''Tea''))) = []"
proof -
  have u: "\<not> is_initialized (fresh_session :: float64 session_state)"
    by (simp add: fresh_session_eq)
  have e: "transactions (fresh_session :: float64 session_state) = []"
    by (simp add: fresh_session_eq)
  note r = add_expense_uninitialized_ignored [OF u, of 3 4 "float 10" "''Tea''"]
  from r [THEN conjunct2, THEN conjunct2] e
  have "transactions
          (fst (main (store_of fresh_session) 3 4 (Add_Expense (float 10) ''Tea''))) = []"
    by (rule trans)
  with u e show ?thesis by blast
qed

text \<open>
  Claim C5. For every amount that is zero or negative, setting the initial balance (on a
  ledger that is not initialized) fails with \<open>InvalidAmount\<close> and the ledger is
  unchanged: it is still not initialized and its initial balance is not set.
\<close>

theorem set_initial_balance_invalid:
  "\<not> is_initialized s \<Longrightarrow> a \<le> 0 \<Longrightarrow>
     failure (snd (main (store_of s) now today (Set_Initial_Balance a))) = Some InvalidAmount
   \<and> fst (main (store_of s) now today (Set_Initial_Balance a)) = s
   \<and> \<not> is_initialized (fst (main (store_of s) now today (Set_Initial_Balance a)))
   \<and> initial_balance (fst (main (store_of s) now today (Set_Initial_Balance a))) = initial_balance s"
  by (simp add: main_uninitialized)

text \<open>The amount 0 on a fresh session.\<close>

theorem set_initial_balance_invalid_witness:
  "\<not> is_initialized (fresh_session :: float64 session_state) \<and> (0 :: float64) \<le> 0
   \<and> failure (snd (main (store_of fresh_session) 3 4 (Set_Initial_Balance (0 :: float64)))) =
       Some InvalidAmount
   \<and> fst (main (store_of fresh_session) 3 4 (Set_Initial_Balance (0 :: float64))) =
       fresh_session"
proof -
  have u: "\<not> is_initialized (fresh_session :: float64 session_state)"
    by (simp add: fresh_session_eq)
  have z: "(0 :: float64) \<le> 0" by simp
  note r = set_initial_balance_invalid [OF u z, of 3 4]
  show ?thesis
    by (rule conjI [OF u conjI [OF z conjI [OF conjunct1 [OF r] conjunct1 [OF conjunct2 [OF r]]]]])
qed

text \<open>
  Claim C6. Whatever the session state is, hence after any sequence of runs, the reset
  produces in one step the state with \<open>is_initialized = False\<close>, \<open>initial_balance = 0\<close>
  and no transactions, which is the state of a fresh session; so the state itself, the
  current balance, the running balance series and the expense breakdown are then those
  of a fresh session.
\<close>

theorem reset_gives_fresh_session:
  "fst (main st now today Reset_All_Data) =
     \<lparr>transactions = [], initial_balance = 0, is_initialized = False\<rparr>
   \<and> fst (main st now today Reset_All_Data) = fresh_session
   \<and> run_session (inps @ [(now, today, Reset_All_Data)]) = fresh_session
   \<and> calculate_current_balance (fst (main st now today Reset_All_Data)) =
       calculate_current_balance fresh_session
   \<and> create_balance_visualization day (fst (main st now today Reset_All_Data)) =
       create_balance_visualization day fresh_session
   \<and> create_expense_breakdown (fst (main st now today Reset_All_Data)) =
       create_expense_breakdown fresh_session"
proof -
  have r: "fst (main st' now today Reset_All_Data) =
     \<lparr>transactions = [], initial_balance = 0, is_initialized = False\<rparr>" for st'
    by (simp add: main_def Let_def initialize_session_state_def)
  have s: "run_session (inps @ [(now, today, Reset_All_Data)]) =
     \<lparr>transactions = [], initial_balance = 0, is_initialized = False\<rparr>"
    by (simp add: run_session_def run_script_def r)
  show ?thesis by (simp only: r s fresh_session_eq simp_thms)
qed

text \<open>Resetting the ledger of 1000 with two expenses.\<close>

theorem reset_gives_fresh_session_witness:
  "fst (main (store_of groceries_gas) 7 8 Reset_All_Data) = fresh_session
   \<and> (fresh_session :: rat session_state) =
       \<lparr>transactions = [], initial_balance = 0, is_initialized = False\<rparr>
   \<and> calculate_current_balance (fst (main (store_of groceries_gas) 7 8 Reset_All_Data)) = 0
   \<and> create_balance_visualization 0 (fst (main (store_of groceries_gas) 7 8 Reset_All_Data)) = None
   \<and> create_expense_breakdown (fst (main (store_of groceries_gas) 7 8 Reset_All_Data)) = None"
proof -
  note r = reset_gives_fresh_session [of "store_of groceries_gas" 7 8 "[]" 0]
  have f: "(fresh_session :: rat session_state) =
       \<lparr>transactions = [], initial_balance = 0, is_initialized = False\<rparr>"
    by (rule fresh_session_eq)
  have q: "calculate_current_balance (fresh_session :: rat session_state) = 0
           \<and> create_balance_visualization 0 (fresh_session :: rat session_state) = None
           \<and> create_expense_breakdown (fresh_session :: rat session_state) = None"
    by (simp add: f calculate_current_balance_def create_balance_visualization_def
        create_expense_breakdown_def)
  have m: "fst (main (store_of groceries_gas) 7 8 Reset_All_Data) = fresh_session"
    by (rule r [THEN conjunct2, THEN conjunct1])
  have c: "calculate_current_balance (fst (main (store_of groceries_gas) 7 8 Reset_All_Data)) = 0"
    using r [THEN conjunct2, THEN conjunct2, THEN conjunct2, THEN conjunct1] q by simp
  have v: "create_balance_visualization 0 (fst (main (store_of groceries_gas) 7 8 Reset_All_Data)) =
      None"
    using r [THEN conjunct2, THEN conjunct2, THEN conjunct2, THEN conjunct2, THEN conjunct1] q
    by simp
  have b: "create_expense_breakdown (fst (main (store_of groceries_gas) 7 8 Reset_All_Data)) = None"
    using r [THEN conjunct2, THEN conjunct2, THEN conjunct2, THEN conjunct2, THEN conjunct2] q
    by simp
  show ?thesis
    by (rule conjI [OF m conjI [OF f conjI [OF c conjI [OF v b]]]])
qed

text \<open>
  Claim C7, as the specification states it: for every ledger that is already initialized
  and every amount, setting the initial balance is rejected with \<open>AlreadyInitialized\<close>.
  The script has no such refusal. Once the ledger is initialized the balance form is not
  drawn, so a click on it is never read: the run shows no notice at all. On the
  ledger \<^const>\<open>rent_float\<close>:
\<close>

theorem set_initial_balance_initialized_counterexample:
  "is_initialized rent_float
   \<and> main (store_of rent_float) 0 0 (Set_Initial_Balance (float 50)) = (rent_float, None)
   \<and> failure (snd (main (store_of rent_float) 0 0 (Set_Initial_Balance (float 50)))) \<noteq>
       Some AlreadyInitialized"
proof -
  have i: "is_initialized rent_float" by (simp add: rent_float_def)
  show ?thesis using i by (simp add: main_initialized [OF i])
qed

text \<open>
  Claim C7, amended. For every ledger that is already initialized and every amount, a
  set-balance command is not processed: the run leaves the ledger as it is, so that the
  initial balance and the transaction list are unchanged (until a reset), and reports no
  error.
\<close>

theorem set_initial_balance_initialized_ignored:
  "is_initialized s \<Longrightarrow>
     main (store_of s) now today (Set_Initial_Balance a) = (s, None)
   \<and> failure (snd (main (store_of s) now today (Set_Initial_Balance a))) = None
   \<and> initial_balance (fst (main (store_of s) now today (Set_Initial_Balance a))) = initial_balance s
   \<and> transactions (fst (main (store_of s) now today (Set_Initial_Balance a))) = transactions s"
  by (simp add: main_initialized)

text \<open>The balance of 100 stays when 50 is offered.\<close>

theorem set_initial_balance_initialized_ignored_witness:
  "is_initialized rent_float
   \<and> initial_balance (fst (main (store_of rent_float) 3 4 (Set_Initial_Balance (float 50)))) =
       float 100"
proof -
  have i: "is_initialized rent_float" by (simp add: rent_float_def)
  have b: "initial_balance rent_float = float 100" by (simp add: rent_float_def)
  note r = set_initial_balance_initialized_ignored [OF i, of 3 4 "float 50"]
  from r [THEN conjunct2, THEN conjunct2, THEN conjunct1] b
  have "initial_balance (fst (main (store_of rent_float) 3 4 (Set_Initial_Balance (float 50)))) =
          float 100"
    by (rule trans)
  with i show ?thesis by blast
qed

text \<open>
  Claim C8. For every add-expense command that succeeds (the ledger is initialized and
  the amount is positive), the transaction appended carries the description
  \<open>''General Expense''\<close> when the description field was left blank, that is empty, and
  otherwise the description supplied, exactly. The text field always yields a string, so
  an absent description is the empty one.
\<close>

theorem add_expense_description:
  "is_initialized s \<Longrightarrow> 0 < a \<Longrightarrow>
     transactions (fst (main (store_of s) now today (Add_Expense a d))) =
       transactions s @
         [\<lparr>amount = a, description = (if d = [] then ''General Expense'' else d),
           timestamp = now, date = today\<rparr>]
   \<and> failure (snd (main (store_of s) now today (Add_Expense a d))) = None"
  by (simp add: main_initialized add_transaction_def)

text \<open>An empty description and the description \<open>''Tea''\<close>.\<close>

theorem add_expense_description_witness:
  "is_initialized rent \<and> (0 :: rat) < 5
   \<and> description (last (transactions (fst (main (store_of rent) 3 4 (Add_Expense 5 []))))) =
       ''General Expense''
   \<and> description (last (transactions (fst (main (store_of rent) 3 4 (Add_Expense 5 ''Tea''))))) =
       ''Tea''"
proof -
  have i: "is_initialized rent" by (simp add: rent_def)
  have p: "(0 :: rat) < 5" by simp
  from add_expense_description [OF i p, of 3 4 "[]", THEN conjunct1]
  have g: "description (last (transactions (fst (main (store_of rent) 3 4 (Add_Expense 5 []))))) =
       ''General Expense''"
    by simp
  from add_expense_description [OF i p, of 3 4 "''Tea''", THEN conjunct1]
  have t: "description (last (transactions (fst (main (store_of rent) 3 4 (Add_Expense 5 ''Tea''))))) =
       ''Tea''"
    by simp
  from i p g t show ?thesis by blast
qed

section \<open>The claim about the states of a session\<close>

text \<open>
  Claim C10. In every state that a session reaches through runs of the script (its
  start, set-balance, add-expense and reset), a ledger that is not initialized has the
  initial balance 0 and no transactions; equivalently, a ledger with a nonzero balance
  or with a transaction is initialized.
\<close>

theorem uninitialized_ledger_is_empty:
  "(\<not> is_initialized (run_session inps) \<longrightarrow>
      initial_balance (run_session inps) = 0 \<and> transactions (run_session inps) = [])
   \<and> (initial_balance (run_session inps) \<noteq> 0 \<or> transactions (run_session inps) \<noteq> [] \<longrightarrow>
      is_initialized (run_session inps))"
  using run_session_invariant [of inps] by blast

text \<open>
  A session that sets a balance of 100, adds an expense, resets and then clicks on the
  expense form; and the same session before its reset.
\<close>

theorem uninitialized_ledger_is_empty_witness:
  "\<not> is_initialized (run_session
       [(1, 1, Set_Initial_Balance (100 :: rat)), (2, 1, Add_Expense 30 ''Tea''),
        (3, 2, Reset_All_Data), (4, 2, Add_Expense 5 ''Gas'')])
   \<and> initial_balance (run_session
       [(1, 1, Set_Initial_Balance (100 :: rat)), (2, 1, Add_Expense 30 ''Tea''),
        (3, 2, Reset_All_Data), (4, 2, Add_Expense 5 ''Gas'')]) = 0
   \<and> transactions (run_session
       [(1, 1, Set_Initial_Balance (100 :: rat)), (2, 1, Add_Expense 30 ''Tea''),
        (3, 2, Reset_All_Data), (4, 2, Add_Expense 5 ''Gas'')]) = []
   \<and> transactions (run_session
       [(1, 1, Set_Initial_Balance (100 :: rat)), (2, 1, Add_Expense 30 ''Tea'')]) \<noteq> []
   \<and> is_initialized (run_session
       [(1, 1, Set_Initial_Balance (100 :: rat)), (2, 1, Add_Expense 30 ''Tea'')])"
proof -
  let ?a = "[(1, 1, Set_Initial_Balance (100 :: rat)), (2, 1, Add_Expense 30 ''Tea''),
        (3, 2, Reset_All_Data), (4, 2, Add_Expense 5 ''Gas'')]"
  let ?b = "[(1 :: nat, 1 :: nat, Set_Initial_Balance (100 :: rat)), (2, 1, Add_Expense 30 ''Tea'')]"
  have u: "\<not> is_initialized (run_session ?a)"
    by (simp add: run_session_def run_script_def main_def initialize_store_of fresh_session_eq
        Let_def add_transaction_def)
  have n: "initial_balance (run_session ?b) \<noteq> 0 \<or> transactions (run_session ?b) \<noteq> []"
    by (simp add: run_session_def run_script_def main_def initialize_store_of fresh_session_eq
        Let_def add_transaction_def)
  have t: "transactions (run_session ?b) \<noteq> []"
    by (simp add: run_session_def run_script_def main_def initialize_store_of fresh_session_eq
        Let_def add_transaction_def)
  note e = uninitialized_ledger_is_empty [of ?a, THEN conjunct1, THEN mp, OF u]
  note i = uninitialized_ledger_is_empty [of ?b, THEN conjunct2, THEN mp, OF n]
  show ?thesis
    by (rule conjI [OF u conjI [OF conjunct1 [OF e] conjI [OF conjunct2 [OF e] conjI [OF t i]]]])
qed

end
